theory Spec2Isabelle
  imports Main
begin

section \<open>Python strings\<close>

text \<open>
  Strings are \<^typ>\<open>string\<close>. \<open>str.lower()\<close> is modelled on the ASCII letters,
  \<open>k in text\<close> is the substring test, and \<open>not s.strip()\<close> holds when every
  character of \<open>s\<close> is white space. A character stands for a code point below
  256; the white space among these is 9 to 13, 28 to 32, 133 and 160.
\<close>

definition char_lower :: "char \<Rightarrow> char" where
  "char_lower c =
     (case map_of (zip ''ABCDEFGHIJKLMNOPQRSTUVWXYZ'' ''abcdefghijklmnopqrstuvwxyz'') c of
        None \<Rightarrow> c | Some l \<Rightarrow> l)"

definition py_lower :: "string \<Rightarrow> string" where
  "py_lower s = map char_lower s"

fun py_in_str :: "string \<Rightarrow> string \<Rightarrow> bool" where
  "py_in_str k [] = (k = [])"
| "py_in_str k (c # cs) = (take (length k) (c # cs) = k \<or> py_in_str k cs)"

definition is_space :: "char \<Rightarrow> bool" where
  "is_space c =
     (let n = (of_char c :: nat)
      in (9 \<le> n \<and> n \<le> 13) \<or> (28 \<le> n \<and> n \<le> 32) \<or> n = 133 \<or> n = 160)"

definition py_strip :: "string \<Rightarrow> string" where
  "py_strip s = rev (dropWhile is_space (rev (dropWhile is_space s)))"

fun join :: "string \<Rightarrow> string list \<Rightarrow> string" where
  "join sep [] = []"
| "join sep [x] = x"
| "join sep (x # y # ys) = x @ sep @ join sep (y # ys)"

definition digit_char :: "nat \<Rightarrow> char" where
  "digit_char d = ''0123456789'' ! d"

fun digits :: "nat \<Rightarrow> string" where
  "digits n = (if n < 10 then [digit_char n] else digits (n div 10) @ [digit_char (n mod 10)])"

definition str_int :: "int \<Rightarrow> string" where
  "str_int i = (if i < 0 then CHR ''-'' # digits (nat (- i)) else digits (nat i))"

text \<open>\<open>x or d\<close> on an optional string: \<open>None\<close> and the empty string are both falsy.\<close>

definition str_or :: "string option \<Rightarrow> string \<Rightarrow> string" where
  "str_or x d = (case x of None \<Rightarrow> d | Some s \<Rightarrow> if s = [] then d else s)"

text \<open>An optional string inside an f-string: \<open>None\<close> prints as \<open>None\<close>.\<close>

definition fmt :: "string option \<Rightarrow> string" where
  "fmt x = (case x of None \<Rightarrow> ''None'' | Some s \<Rightarrow> s)"

section \<open>Topic vocabulary\<close>

definition TOPIC_KEYWORDS :: "(string \<times> string list) list" where
  "TOPIC_KEYWORDS =
    [(''hrt_strength'',
        [''hormone'', ''androgen'', ''testosterone'', ''estradiol'',
         ''sex steroid'', ''muscle strength'', ''lean mass'']),
     (''bone_health'',
        [''bone density'', ''bmd'', ''osteoporosis'', ''fracture'', ''bone mineral'']),
     (''top_surgery'',
        [''mastectomy'', ''top surgery'', ''chest surgery'', ''breast surgery'']),
     (''cardio_risk'',
        [''cardiovascular'', ''cardio'', ''aerobic'', ''heart disease'', ''hypertension'']),
     (''mental_health'',
        [''depression'', ''anxiety'', ''mental health'', ''distress'', ''dysphoria''])]"

section \<open>Research articles and the tagger\<close>

record research_row =
  rid :: int
  title :: "string option"
  takeaways :: "string option"
  summary :: "string option"
  year :: "int option"
  journal :: "string option"
  doi :: "string option"
  relevant :: bool
  topics :: "string list option"
  processed :: bool

definition tag_topics_for_research_row :: "research_row \<Rightarrow> string list" where
  "tag_topics_for_research_row row =
     (let text = py_lower (fmt (title row) @ '' '' @ fmt (takeaways row))
      in map fst (filter (\<lambda>(topic, keywords). list_ex (\<lambda>k. py_in_str (py_lower k) text) keywords)
                    TOPIC_KEYWORDS))"

text \<open>
  The research store: the table \<open>transfit_research\<close> and the number of update
  statements executed on it. An update addresses the rows by \<open>id\<close>.
\<close>

record research_store =
  transfit_research :: "research_row list"
  update_calls :: nat

definition set_topics :: "string list \<Rightarrow> research_row \<Rightarrow> research_row" where
  "set_topics ts r = r\<lparr>topics := Some ts, processed := True\<rparr>"

definition db_update_topics :: "int \<Rightarrow> string list \<Rightarrow> research_store \<Rightarrow> research_store" where
  "db_update_topics i ts db =
     db\<lparr>transfit_research := map (\<lambda>r. if rid r = i then set_topics ts r else r) (transfit_research db),
        update_calls := Suc (update_calls db)\<rparr>"

text \<open>The guard of the update: \<open>topics and (row.get("topics") != topics)\<close>.\<close>

definition needs_update :: "research_row \<Rightarrow> bool" where
  "needs_update row =
     (let ts = tag_topics_for_research_row row in ts \<noteq> [] \<and> topics row \<noteq> Some ts)"

fun update_loop :: "research_row list \<Rightarrow> research_store \<Rightarrow> research_row list \<times> research_store" where
  "update_loop [] db = ([], db)"
| "update_loop (row # rows) db =
     (let ts = tag_topics_for_research_row row in
      if needs_update row then
        (let (updated_rows, db') = update_loop rows (db_update_topics (rid row) ts db)
         in (set_topics ts row # updated_rows, db'))
      else
        (let (updated_rows, db') = update_loop rows db in (row # updated_rows, db')))"

definition update_research_topics :: "research_store \<Rightarrow> research_row list \<times> research_store" where
  "update_research_topics db = update_loop (filter relevant (transfit_research db)) db"

section \<open>Exercises and the topic inferencer\<close>

record exercise =
  ex_id :: int
  slug :: "string option"
  name :: string
  pattern :: "string option"
  goal :: "string option"
  difficulty :: "string option"
  equipment :: "string list"
  binder_aware :: "bool option"
  pelvic_floor_safe :: "bool option"
  body_parts :: "string option"
  exercise_type :: "string option"
  target_muscles :: "string option"

text \<open>
  The function collects the topics in a Python set and returns \<open>list(topics)\<close>, whose
  order is not fixed by the language. The model keeps a duplicate-free list in
  insertion order; every consumer only tests emptiness and membership.
\<close>

definition py_set_update :: "string list \<Rightarrow> string list \<Rightarrow> string list" where
  "py_set_update new acc = fold (\<lambda>t a. if t \<in> set a then a else a @ [t]) new acc"

definition infer_topics_for_exercise :: "exercise \<Rightarrow> string list" where
  "infer_topics_for_exercise ex =
     (let pattern = py_lower (str_or (pattern ex) []);
          goal = py_lower (str_or (goal ex) []);
          exercise_type = py_lower (str_or (exercise_type ex) []);
          body_parts = py_lower (str_or (body_parts ex) []);
          t0 = [];
          t1 = (if pattern \<in> set [''hinge'', ''squat'', ''lunge'', ''carry'', ''gait'']
                then py_set_update [''hrt_strength'', ''bone_health''] t0 else t0);
          t2 = (if pattern = ''core''
                then py_set_update [''hrt_strength'', ''bone_health''] t1 else t1);
          t3 = (if goal = ''conditioning'' \<or> exercise_type \<in> set [''cardio'', ''plyometrics'']
                then py_set_update [''cardio_risk''] t2 else t2);
          t4 = (if goal \<in> set [''mobility'', ''recovery'']
                then py_set_update [''bone_health'', ''top_surgery''] t3 else t3);
          t5 = (if list_ex (\<lambda>k. py_in_str k body_parts) [''chest'', ''shoulder'', ''upper arm'']
                then py_set_update [''top_surgery''] t4 else t4);
          t6 = (if binder_aware ex = Some True then py_set_update [''top_surgery''] t5 else t5);
          t7 = (if pelvic_floor_safe ex \<noteq> Some True then py_set_update [''hrt_strength''] t6 else t6)
      in t7)"

section \<open>Context builder\<close>

text \<open>\<open>any(t in row_topics for t in exercise_topics)\<close> with \<open>row_topics = row.get("topics") or []\<close>.\<close>

definition row_topics :: "research_row \<Rightarrow> string list" where
  "row_topics row = (case topics row of None \<Rightarrow> [] | Some ts \<Rightarrow> ts)"

definition row_matches :: "string list \<Rightarrow> research_row \<Rightarrow> bool" where
  "row_matches exercise_topics row = list_ex (\<lambda>t. t \<in> set (row_topics row)) exercise_topics"

text \<open>
  The first loop: a matching row is appended, and the bound on the number of
  collected rows is tested after every row, matching or not.
\<close>

fun match_loop :: "research_row list \<Rightarrow> string list \<Rightarrow> int \<Rightarrow> research_row list \<Rightarrow> research_row list" where
  "match_loop [] exercise_topics max_articles matched = matched"
| "match_loop (row # rows) exercise_topics max_articles matched =
     (let matched' = (if row_matches exercise_topics row then matched @ [row] else matched)
      in if int (length matched') \<ge> max_articles then matched'
         else match_loop rows exercise_topics max_articles matched')"

definition render_line :: "research_row \<Rightarrow> string" where
  "render_line r =
     (let journal = str_or (journal r) ''n.d.'';
          title = str_or (title r) ''Untitled'';
          takeaways = str_or (takeaways r) (str_or (summary r) [])
      in ''- '' @ title @ '' ('' @ (case year r of None \<Rightarrow> ''n.d.'' | Some y \<Rightarrow> str_int y)
           @ '', '' @ journal @ ''): '' @ takeaways)"

definition collect_dois :: "research_row list \<Rightarrow> string list" where
  "collect_dois matched = concat (map (\<lambda>r. case doi r of None \<Rightarrow> [] | Some d \<Rightarrow> if d = [] then [] else [d]) matched)"

definition build_research_context_for_topics ::
  "research_row list \<Rightarrow> string list \<Rightarrow> int \<Rightarrow> string \<times> string list" where
  "build_research_context_for_topics research_rows exercise_topics max_articles =
     (if exercise_topics = [] then ([], [])
      else let matched = match_loop research_rows exercise_topics max_articles []
           in if matched = [] then ([], [])
              else (join [CHR 0x0A] (map render_line matched), collect_dois matched))"

section \<open>Tip store and generator\<close>

text \<open>
  The value \<open>json.loads\<close> returns. Python truth of such a value: \<open>None\<close>,
  \<open>False\<close>, zero and the empty string, list and object are falsy. Numbers are
  integers here; the orchestrator only looks at the truth of the value.
\<close>

datatype json = JNull | JBool bool | JNum int | JStr string | JArr "json list" | JObj "(string \<times> json) list"

fun truthy :: "json \<Rightarrow> bool" where
  "truthy JNull = False"
| "truthy (JBool b) = b"
| "truthy (JNum n) = (n \<noteq> 0)"
| "truthy (JStr s) = (s \<noteq> [])"
| "truthy (JArr xs) = (xs \<noteq> [])"
| "truthy (JObj kvs) = (kvs \<noteq> [])"

text \<open>The keys of the object that the prompt asks the generator for.\<close>

definition REQUIRED_KEYS :: "string list" where
  "REQUIRED_KEYS = [''form_focus'', ''hrt_considerations'', ''binding_considerations'',
     ''post_op_considerations'', ''gender_affirming_modifications'', ''general_safety'',
     ''disclaimer'', ''source_dois'']"

fun has_required_keys :: "json \<Rightarrow> bool" where
  "has_required_keys (JObj kvs) = list_all (\<lambda>k. k \<in> set (map fst kvs)) REQUIRED_KEYS"
| "has_required_keys _ = False"

record tip_record =
  exercise_id :: int
  population :: string
  "context" :: string
  tips :: json
  source_dois :: "string list"
  needs_review :: bool

datatype exn = Exception string

text \<open>
  The two collaborators that can fail. \<open>chat_completion n ex ctx dois\<close> is the outcome
  of the \<open>n\<close>-th completion request of a run followed by \<open>json.loads\<close>: an exception
  (of the request or of the parser) or the parsed value. \<open>insert_error tbl r\<close> is the
  exception, if any, that inserting \<open>r\<close> into the table \<open>tbl\<close> raises; a failed
  insert writes nothing. Reads of the stores are taken to succeed.
\<close>

record services =
  chat_completion :: "nat \<Rightarrow> exercise \<Rightarrow> string \<Rightarrow> string list \<Rightarrow> exn + json"
  insert_error :: "tip_record list \<Rightarrow> tip_record \<Rightarrow> exn option"

definition exercise_already_has_tips :: "tip_record list \<Rightarrow> int \<Rightarrow> string \<Rightarrow> string \<Rightarrow> bool" where
  "exercise_already_has_tips tbl eid pop ctx =
     (0 < length (filter (\<lambda>r. exercise_id r = eid \<and> population r = pop \<and> context r = ctx) tbl))"

text \<open>
  Returns the outcome and the number of completion requests made so far. A context
  of white space only returns the empty object without a request.
\<close>

definition generate_tips_json_for_exercise ::
  "services \<Rightarrow> nat \<Rightarrow> exercise \<Rightarrow> string \<Rightarrow> string list \<Rightarrow> (exn + json) \<times> nat" where
  "generate_tips_json_for_exercise svc calls ex research_context dois =
     (if py_strip research_context = [] then (Inr (JObj []), calls)
      else (chat_completion svc calls ex research_context dois, Suc calls))"

section \<open>Orchestrator\<close>

datatype log_line =
    Skipping_existing string
  | No_topics_inferred string
  | No_matching_research "string list" string
  | Error_generating string exn
  | No_tips_generated string
  | Inserted_tips string int

text \<open>
  The state of a run: the table \<open>exercise_trans_tips\<close>, the counter
  \<open>processed_count\<close>, the lines printed by the loop, and the numbers of completion
  requests and of insert statements issued.
\<close>

record run_state =
  exercise_trans_tips :: "tip_record list"
  processed_count :: nat
  printed :: "log_line list"
  generator_calls :: nat
  insert_calls :: nat

definition say :: "log_line \<Rightarrow> run_state \<Rightarrow> run_state" where
  "say l st = st\<lparr>printed := printed st @ [l]\<rparr>"

text \<open>
  The body of the loop over the exercises. \<open>Inr\<close> is the state with which the loop
  goes on (after \<open>continue\<close> or at the end of the body); \<open>Inl\<close> is an exception that
  leaves the loop, with the state reached.
\<close>

definition loop_body ::
  "services \<Rightarrow> research_row list \<Rightarrow> exercise \<Rightarrow> run_state \<Rightarrow> (exn \<times> run_state) + run_state" where
  "loop_body svc research_rows ex st =
     (let population = ''general''; context = ''general''; exercise_id = ex_id ex in
      if exercise_already_has_tips (exercise_trans_tips st) exercise_id population context
      then Inr (say (Skipping_existing (name ex)) st)
      else let ex_topics = infer_topics_for_exercise ex in
      if ex_topics = [] then Inr (say (No_topics_inferred (name ex)) st)
      else let (research_context, dois) = build_research_context_for_topics research_rows ex_topics 6 in
      if research_context = [] then Inr (say (No_matching_research ex_topics (name ex)) st)
      else let (outcome, calls) =
                 generate_tips_json_for_exercise svc (generator_calls st) ex research_context dois;
               st1 = st\<lparr>generator_calls := calls\<rparr> in
      case outcome of
        Inl e \<Rightarrow> Inr (say (Error_generating (name ex) e) st1)
      | Inr tips_json \<Rightarrow>
          if \<not> truthy tips_json then Inr (say (No_tips_generated (name ex)) st1)
          else let r = \<lparr>exercise_id = exercise_id, population = population, context = context,
                          tips = tips_json, source_dois = dois, needs_review = True\<rparr>;
                   st2 = st1\<lparr>insert_calls := Suc (insert_calls st1)\<rparr> in
               (case insert_error svc (exercise_trans_tips st2) r of
                  Some e \<Rightarrow> Inl (e, st2)
                | None \<Rightarrow>
                    Inr (say (Inserted_tips (name ex) exercise_id)
                          (st2\<lparr>exercise_trans_tips := exercise_trans_tips st2 @ [r],
                               processed_count := Suc (processed_count st2)\<rparr>))))"

definition MAX_EXERCISES :: "nat option" where
  "MAX_EXERCISES = Some 25"

definition limit_reached :: "nat option \<Rightarrow> run_state \<Rightarrow> bool" where
  "limit_reached mx st = (case mx of None \<Rightarrow> False | Some m \<Rightarrow> processed_count st \<ge> m)"

fun main_loop ::
  "services \<Rightarrow> nat option \<Rightarrow> research_row list \<Rightarrow> exercise list \<Rightarrow> run_state
     \<Rightarrow> (exn \<times> run_state) + run_state" where
  "main_loop svc mx research_rows [] st = Inr st"
| "main_loop svc mx research_rows (ex # exs) st =
     (if limit_reached mx st then Inr st
      else case loop_body svc research_rows ex st of
             Inl e \<Rightarrow> Inl e
           | Inr st' \<Rightarrow> main_loop svc mx research_rows exs st')"

definition initial_state :: "tip_record list \<Rightarrow> run_state" where
  "initial_state tbl =
     \<lparr>exercise_trans_tips = tbl, processed_count = 0, printed = [], generator_calls = 0, insert_calls = 0\<rparr>"

definition final_state :: "(exn \<times> run_state) + run_state \<Rightarrow> run_state" where
  "final_state res = (case res of Inl (e, st) \<Rightarrow> st | Inr st \<Rightarrow> st)"

text \<open>
  A run: tag the research, then loop over the loaded exercises with the limit
  \<open>mx\<close> (\<open>MAX_EXERCISES\<close> in the script).
\<close>

definition main ::
  "services \<Rightarrow> nat option \<Rightarrow> research_store \<Rightarrow> exercise list \<Rightarrow> tip_record list
     \<Rightarrow> research_store \<times> ((exn \<times> run_state) + run_state)" where
  "main svc mx db exercises tbl =
     (let (research_rows, db') = update_research_topics db
      in (db', main_loop svc mx research_rows exercises (initial_state tbl)))"

text \<open>Sequential runs, each with its own collaborators, research and exercises.\<close>

fun runs ::
  "(services \<times> nat option \<times> research_store \<times> exercise list) list \<Rightarrow> tip_record list \<Rightarrow> tip_record list" where
  "runs [] tbl = tbl"
| "runs ((svc, mx, db, exercises) # rest) tbl =
     runs rest (exercise_trans_tips (final_state (snd (main svc mx db exercises tbl))))"

definition tip_key :: "tip_record \<Rightarrow> int \<times> string \<times> string" where
  "tip_key r = (exercise_id r, population r, context r)"

section \<open>What a tagger run makes of a row\<close>

text \<open>
  \<open>retag\<close> is the row as the loop returns it, \<open>apply_update row\<close> the effect on a
  stored row of the update that the loop issues for \<open>row\<close>, and \<open>tagged\<close> the
  stored row after a run over a table with unique identifiers.
\<close>

definition retag :: "research_row \<Rightarrow> research_row" where
  "retag r = (if needs_update r then set_topics (tag_topics_for_research_row r) r else r)"

definition apply_update :: "research_row \<Rightarrow> research_row \<Rightarrow> research_row" where
  "apply_update row r =
     (if needs_update row \<and> rid r = rid row then set_topics (tag_topics_for_research_row row) r else r)"

definition tagged :: "research_row \<Rightarrow> research_row" where
  "tagged r = (if relevant r then retag r else r)"

text \<open>The record that the orchestrator inserts for an exercise.\<close>

definition new_tip :: "exercise \<Rightarrow> json \<Rightarrow> string list \<Rightarrow> tip_record" where
  "new_tip ex tips_json dois =
     \<lparr>exercise_id = ex_id ex, population = ''general'', context = ''general'',
      tips = tips_json, source_dois = dois, needs_review = True\<rparr>"

section \<open>Sample data\<close>

text \<open>
  Two exercises, five research rows, a generator response that lacks the key
  \<open>disclaimer\<close>, and collaborators that answer with it, time out, refuse the
  insert, or answer with the empty object. They instantiate the theorems below.
\<close>

definition ex_squat :: exercise where
  "ex_squat = \<lparr>ex_id = 1, slug = Some ''squat'', name = ''Squat'', pattern = Some ''squat'',
     goal = Some ''strength'', difficulty = None, equipment = [], binder_aware = Some False,
     pelvic_floor_safe = Some True, body_parts = Some ''legs'', exercise_type = None,
     target_muscles = None\<rparr>"

definition ex_lunge :: exercise where
  "ex_lunge = ex_squat\<lparr>ex_id := 2, slug := Some ''lunge'', name := ''Lunge'', pattern := Some ''lunge''\<rparr>"

definition row_lean :: research_row where
  "row_lean = \<lparr>rid = 7, title = Some ''Lean Mass'', takeaways = None, summary = None,
     year = Some 2019, journal = None, doi = Some ''10.1/x'', relevant = True,
     topics = None, processed = False\<rparr>"

definition row_lean_tagged :: research_row where
  "row_lean_tagged = row_lean\<lparr>topics := Some [''hrt_strength''], processed := True\<rparr>"

definition row_yoga :: research_row where
  "row_yoga = \<lparr>rid = 8, title = Some ''Yoga'', takeaways = Some ''calm'', summary = None,
     year = None, journal = None, doi = None, relevant = True,
     topics = Some [''hrt_strength''], processed = True\<rparr>"

definition row_mood :: research_row where
  "row_mood = row_yoga\<lparr>rid := 9, topics := Some [''mental_health'']\<rparr>"

definition row_bone :: research_row where
  "row_bone = \<lparr>rid = 10, title = Some ''Bone'', takeaways = Some ''load'', summary = None,
     year = None, journal = Some ''J'', doi = Some ''10.2/y'', relevant = True,
     topics = Some [''bone_health''], processed = True\<rparr>"

definition tips_without_disclaimer :: json where
  "tips_without_disclaimer =
     JObj [(''form_focus'', JArr [JStr ''brace'']), (''hrt_considerations'', JArr []),
           (''binding_considerations'', JArr []), (''post_op_considerations'', JArr []),
           (''gender_affirming_modifications'', JArr []), (''general_safety'', JArr []),
           (''source_dois'', JArr [JStr ''10.1/x''])]"

definition svc_no_disclaimer :: services where
  "svc_no_disclaimer = \<lparr>chat_completion = (\<lambda>n ex ctx dois. Inr tips_without_disclaimer),
     insert_error = (\<lambda>tbl r. None)\<rparr>"

definition svc_timeout :: services where
  "svc_timeout = \<lparr>chat_completion = (\<lambda>n ex ctx dois. Inl (Exception ''timeout'')),
     insert_error = (\<lambda>tbl r. None)\<rparr>"

definition svc_insert_fails :: services where
  "svc_insert_fails = \<lparr>chat_completion = (\<lambda>n ex ctx dois. Inr tips_without_disclaimer),
     insert_error = (\<lambda>tbl r. Some (Exception ''schema''))\<rparr>"

definition svc_empty_rejects :: services where
  "svc_empty_rejects = \<lparr>chat_completion = (\<lambda>n ex ctx dois. Inr (JObj [])),
     insert_error = (\<lambda>tbl r. Some (Exception ''schema''))\<rparr>"

definition tip_for :: "int \<Rightarrow> tip_record" where
  "tip_for i = \<lparr>exercise_id = i, population = ''general'', context = ''general'',
     tips = tips_without_disclaimer, source_dois = [''10.1/x''], needs_review = True\<rparr>"

definition ctx_lean :: string where
  "ctx_lean = ''- Lean Mass (2019, n.d.): ''"

definition db_lean :: research_store where
  "db_lean = \<lparr>transfit_research = [row_lean, row_yoga], update_calls = 0\<rparr>"

definition db_lean_tagged :: research_store where
  "db_lean_tagged = \<lparr>transfit_research = [row_lean_tagged, row_yoga], update_calls = 1\<rparr>"

definition run_squat :: "services \<times> nat option \<times> research_store \<times> exercise list" where
  "run_squat = (svc_no_disclaimer, MAX_EXERCISES, db_lean, [ex_squat])"

section \<open>Properties of the tagger, the inferencer and the context builder\<close>

lemma tag_set_topics: "tag_topics_for_research_row (set_topics ts r) = tag_topics_for_research_row r"
  by (simp add: tag_topics_for_research_row_def set_topics_def)

lemma rid_set_topics: "rid (set_topics ts r) = rid r"
  by (simp add: set_topics_def)

lemma relevant_set_topics: "relevant (set_topics ts r) = relevant r"
  by (simp add: set_topics_def)

lemma set_topics_twice: "set_topics ts (set_topics ts r) = set_topics ts r"
  by (simp add: set_topics_def)

lemma needs_update_retag: "\<not> needs_update (retag r)"
  by (simp add: retag_def needs_update_def tag_set_topics Let_def) (simp add: set_topics_def)

lemma relevant_retag: "relevant (retag r) = relevant r"
  by (simp add: retag_def relevant_set_topics)

lemma update_loop_settled:
  "\<forall>row \<in> set rows. \<not> needs_update row \<Longrightarrow> update_loop rows db = (rows, db)"
  by (induction rows arbitrary: db) simp_all

lemma update_loop_rows: "fst (update_loop rows db) = map retag rows"
  by (induction rows arbitrary: db) (simp_all add: retag_def Let_def split_beta)

lemma update_loop_table:
  "transfit_research (snd (update_loop rows db)) =
     map (fold apply_update rows) (transfit_research db)"
  by (induction rows arbitrary: db)
     (auto simp: Let_def split_beta db_update_topics_def apply_update_def)

lemma update_loop_calls:
  "update_calls (snd (update_loop rows db)) = update_calls db + length (filter needs_update rows)"
  by (induction rows arbitrary: db) (simp_all add: Let_def split_beta db_update_topics_def)

lemma fold_apply_update_own:
  assumes "\<forall>row \<in> set rows. rid row = rid r \<longrightarrow> row = r"
    and "cur = r \<or> (cur = retag r \<and> r \<in> set done)"
  shows "fold apply_update rows cur = (if r \<in> set rows then retag r else cur)"
  using assms
proof (induction rows arbitrary: cur "done")
  case Nil
  then show ?case by simp
next
  case (Cons row rows)
  have own: "\<forall>row \<in> set rows. rid row = rid r \<longrightarrow> row = r"
    using Cons.prems(1) by simp
  have rc: "rid cur = rid r"
    using Cons.prems(2) by (auto simp: retag_def rid_set_topics)
  show ?case
  proof (cases "rid row = rid r")
    case True
    then have rr: "row = r" using Cons.prems(1) by simp
    have step: "apply_update row cur = retag r"
      using Cons.prems(2) rr
      by (auto simp: apply_update_def retag_def rid_set_topics set_topics_twice)
    have "fold apply_update rows (retag r) = (if r \<in> set rows then retag r else retag r)"
      by (rule Cons.IH [OF own, of _ "[r]"]) simp
    then show ?thesis using step rr by simp
  next
    case False
    then have step: "apply_update row cur = cur"
      using rc by (simp add: apply_update_def)
    have ne: "row \<noteq> r" using False by auto
    have "fold apply_update rows cur = (if r \<in> set rows then retag r else cur)"
      by (rule Cons.IH [OF own Cons.prems(2)])
    then show ?thesis using step ne by simp
  qed
qed

lemma fold_apply_update_other:
  "\<forall>row \<in> set rows. rid row \<noteq> rid r \<Longrightarrow> fold apply_update rows r = r"
  by (induction rows) (simp_all add: apply_update_def)

lemma distinct_rid_eq:
  "distinct (map rid tbl) \<Longrightarrow> r \<in> set tbl \<Longrightarrow> row \<in> set tbl \<Longrightarrow> rid row = rid r \<Longrightarrow> row = r"
  by (meson distinct_map inj_onD)

lemma update_research_topics_table:
  assumes "distinct (map rid (transfit_research db))"
  shows "transfit_research (snd (update_research_topics db)) = map tagged (transfit_research db)"
proof -
  let ?tbl = "transfit_research db"
  let ?rows = "filter relevant ?tbl"
  have "fold apply_update ?rows r = tagged r" if r: "r \<in> set ?tbl" for r
  proof (cases "relevant r")
    case True
    have own: "\<forall>row \<in> set ?rows. rid row = rid r \<longrightarrow> row = r"
      using distinct_rid_eq [OF assms r] by auto
    have "fold apply_update ?rows r = (if r \<in> set ?rows then retag r else r)"
      by (rule fold_apply_update_own [OF own, of _ "[]"]) simp
    then show ?thesis using True r by (simp add: tagged_def)
  next
    case False
    have "\<forall>row \<in> set ?rows. rid row \<noteq> rid r"
      using distinct_rid_eq [OF assms r] False by auto
    then show ?thesis using False by (simp add: fold_apply_update_other tagged_def)
  qed
  then show ?thesis
    by (simp add: update_research_topics_def update_loop_table)
qed

lemma update_research_topics_calls:
  "update_calls (snd (update_research_topics db)) =
     update_calls db + length (filter (\<lambda>r. relevant r \<and> needs_update r) (transfit_research db))"
  by (simp add: update_research_topics_def update_loop_calls conj_commute)

lemma update_research_topics_rows:
  "fst (update_research_topics db) = map tagged (filter relevant (transfit_research db))"
  by (simp add: update_research_topics_def update_loop_rows tagged_def)

lemma update_research_topics_again:
  assumes "distinct (map rid (transfit_research db))"
    and "update_research_topics db = (rows1, db1)"
  shows "update_research_topics db1 = (rows1, db1)"
proof -
  have tbl1: "transfit_research db1 = map tagged (transfit_research db)"
    using update_research_topics_table [OF assms(1)] assms(2) by simp
  have rows1: "rows1 = map tagged (filter relevant (transfit_research db))"
    using update_research_topics_rows [of db] assms(2) by simp
  have rel: "relevant (tagged r) = relevant r" for r
    by (simp add: tagged_def relevant_retag)
  have "filter relevant (transfit_research db1) = rows1"
    by (simp add: tbl1 rows1 filter_map o_def rel)
  moreover have "\<forall>row \<in> set rows1. \<not> needs_update row"
    by (auto simp: rows1 tagged_def needs_update_retag)
  ultimately show ?thesis
    by (simp add: update_research_topics_def update_loop_settled)
qed

subsection \<open>Inferencer\<close>

lemma set_py_set_update: "set (py_set_update new acc) = set new \<union> set acc"
  unfolding py_set_update_def by (induction new arbitrary: acc) auto

lemma infer_topics_subset:
  "set (infer_topics_for_exercise ex) \<subseteq> {''hrt_strength'', ''bone_health'', ''top_surgery'', ''cardio_risk''}"
  unfolding infer_topics_for_exercise_def Let_def
  by (auto simp: set_py_set_update)

subsection \<open>Context builder\<close>

lemma match_loop_take:
  "int (length matched) < m \<Longrightarrow>
     match_loop rows ts m matched = matched @ take (nat m - length matched) (filter (row_matches ts) rows)"
proof (induction rows arbitrary: matched)
  case Nil
  then show ?case by simp
next
  case (Cons row rows)
  show ?case
  proof (cases "row_matches ts row")
    case True
    show ?thesis
    proof (cases "int (length (matched @ [row])) \<ge> m")
      case full: True
      then have "nat m - length matched = 1" using Cons.prems by simp
      then show ?thesis using True full by simp
    next
      case False
      then have lt: "int (length (matched @ [row])) < m" by simp
      have "nat m - length matched = Suc (nat m - length (matched @ [row]))"
        using lt by simp
      then show ?thesis using True False Cons.IH [OF lt] by simp
    qed
  next
    case False
    then show ?thesis using Cons.prems Cons.IH [OF Cons.prems] by simp
  qed
qed

lemma match_loop_first:
  "1 \<le> m \<Longrightarrow> match_loop rows ts m [] = take (nat m) (filter (row_matches ts) rows)"
  using match_loop_take [of "[]" m rows ts] by simp

lemma match_loop_subset:
  "set (match_loop rows ts m matched) \<subseteq> set matched \<union> {r \<in> set rows. row_matches ts r}"
proof (induction rows arbitrary: matched)
  case Nil
  then show ?case by simp
next
  case (Cons row rows)
  show ?case
    using Cons.IH [of "matched @ [row]"] Cons.IH [of matched]
    by (auto simp: Let_def)
qed

lemma row_matches_iff: "row_matches ts r = (set ts \<inter> set (row_topics r) \<noteq> {})"
  by (auto simp: row_matches_def list_ex_iff)

lemma row_matches_topics:
  "row_matches ts r = (set ts \<inter> (case topics r of None \<Rightarrow> {} | Some t \<Rightarrow> set t) \<noteq> {})"
  by (auto simp: row_matches_def row_topics_def list_ex_iff split: option.splits)

lemma collect_dois_present:
  "collect_dois matched =
     map (\<lambda>r. the (doi r)) (filter (\<lambda>r. doi r \<noteq> None \<and> doi r \<noteq> Some []) matched)"
  unfolding collect_dois_def by (induction matched) (auto split: option.splits)

lemma render_line_nonempty: "render_line r \<noteq> []"
  by (simp add: render_line_def Let_def)

lemma hd_render_line: "hd (render_line r) = CHR ''-''"
  by (simp add: render_line_def Let_def)

lemma join_nonempty: "xs \<noteq> [] \<Longrightarrow> hd xs \<noteq> [] \<Longrightarrow> join sep xs \<noteq> []"
  by (induction sep xs rule: join.induct) auto

lemma hd_join: "xs \<noteq> [] \<Longrightarrow> hd xs \<noteq> [] \<Longrightarrow> hd (join sep xs) = hd (hd xs)"
  by (induction sep xs rule: join.induct) auto

lemma join_render_nonempty: "xs \<noteq> [] \<Longrightarrow> join sep (map render_line xs) \<noteq> []"
  by (cases xs) (simp_all add: join_nonempty render_line_nonempty)

lemma build_eq_empty:
  "(build_research_context_for_topics rows ts m = ([], [])) =
     (ts = [] \<or> match_loop rows ts m [] = [])"
  by (auto simp: build_research_context_for_topics_def Let_def join_render_nonempty)

lemma build_context_nonempty:
  "build_research_context_for_topics rows ts m = (ctx, dois) \<Longrightarrow> ctx \<noteq> [] \<Longrightarrow>
     hd ctx = CHR ''-''"
  by (auto simp: build_research_context_for_topics_def Let_def hd_join render_line_nonempty hd_render_line hd_map
           split: if_splits)

lemma py_strip_nonempty: "s \<noteq> [] \<Longrightarrow> \<not> is_space (hd s) \<Longrightarrow> py_strip s \<noteq> []"
  by (cases s) (auto simp: py_strip_def dropWhile_append3)

lemma not_space_dash: "\<not> is_space CHR ''-''"
  by (simp add: is_space_def)

subsection \<open>Orchestrator\<close>

lemma build_context_strip:
  "build_research_context_for_topics rows ts m = (ctx, dois) \<Longrightarrow> ctx \<noteq> [] \<Longrightarrow> py_strip ctx \<noteq> []"
  using build_context_nonempty [of rows ts m ctx dois] py_strip_nonempty [of ctx] not_space_dash
  by simp

lemma build_context_topics:
  "build_research_context_for_topics rows ts m = (ctx, dois) \<Longrightarrow> ctx \<noteq> [] \<Longrightarrow> ts \<noteq> []"
  by (auto simp: build_research_context_for_topics_def)

lemma generate_requests:
  "build_research_context_for_topics rows ts m = (ctx, dois) \<Longrightarrow> ctx \<noteq> [] \<Longrightarrow>
     generate_tips_json_for_exercise svc n ex ctx dois = (chat_completion svc n ex ctx dois, Suc n)"
  by (simp add: generate_tips_json_for_exercise_def build_context_strip)

lemma loop_body_existing:
  "exercise_already_has_tips (exercise_trans_tips st) (ex_id ex) ''general'' ''general'' \<Longrightarrow>
     loop_body svc rows ex st = Inr (st\<lparr>printed := printed st @ [Skipping_existing (name ex)]\<rparr>)"
  by (simp add: loop_body_def say_def)

lemma loop_body_generated:
  assumes "\<not> exercise_already_has_tips (exercise_trans_tips st) (ex_id ex) ''general'' ''general''"
    and "build_research_context_for_topics rows (infer_topics_for_exercise ex) 6 = (ctx, dois)"
    and "ctx \<noteq> []"
  shows "loop_body svc rows ex st =
    (case chat_completion svc (generator_calls st) ex ctx dois of
       Inl e \<Rightarrow> Inr (say (Error_generating (name ex) e) (st\<lparr>generator_calls := Suc (generator_calls st)\<rparr>))
     | Inr tips_json \<Rightarrow>
         if \<not> truthy tips_json
         then Inr (say (No_tips_generated (name ex)) (st\<lparr>generator_calls := Suc (generator_calls st)\<rparr>))
         else (case insert_error svc (exercise_trans_tips st)
                      \<lparr>exercise_id = ex_id ex, population = ''general'', context = ''general'',
                       tips = tips_json, source_dois = dois, needs_review = True\<rparr> of
                 Some e \<Rightarrow> Inl (e, st\<lparr>generator_calls := Suc (generator_calls st),
                                       insert_calls := Suc (insert_calls st)\<rparr>)
               | None \<Rightarrow> Inr (say (Inserted_tips (name ex) (ex_id ex))
                     (st\<lparr>generator_calls := Suc (generator_calls st),
                         insert_calls := Suc (insert_calls st),
                         exercise_trans_tips := exercise_trans_tips st @
                           [\<lparr>exercise_id = ex_id ex, population = ''general'', context = ''general'',
                             tips = tips_json, source_dois = dois, needs_review = True\<rparr>],
                         processed_count := Suc (processed_count st)\<rparr>))))"
  using assms build_context_topics [OF assms(2,3)] generate_requests [OF assms(2,3)]
  by (simp add: loop_body_def Let_def split: sum.splits option.splits)

text \<open>What one pass through the body does to the table, the counter and the call counts.\<close>

lemma loop_body_effect:
  assumes "st' = final_state (loop_body svc rows ex st)"
  shows "(exercise_trans_tips st' = exercise_trans_tips st \<and> processed_count st' = processed_count st)
       \<or> (\<not> exercise_already_has_tips (exercise_trans_tips st) (ex_id ex) ''general'' ''general''
          \<and> (\<exists>r. exercise_trans_tips st' = exercise_trans_tips st @ [r]
                 \<and> tip_key r = (ex_id ex, ''general'', ''general''))
          \<and> processed_count st' = Suc (processed_count st)
          \<and> (\<exists>s. loop_body svc rows ex st = Inr s))"
  using assms
  by (auto simp: loop_body_def Let_def say_def final_state_def tip_key_def
           split: prod.splits sum.splits option.splits if_splits)

lemma loop_body_calls:
  assumes "st' = final_state (loop_body svc rows ex st)"
  shows "generator_calls st' \<le> Suc (generator_calls st) \<and> insert_calls st' \<le> Suc (insert_calls st)
         \<and> generator_calls st \<le> generator_calls st' \<and> insert_calls st \<le> insert_calls st'"
  using assms
  by (auto simp: loop_body_def Let_def say_def final_state_def generate_tips_json_for_exercise_def
           split: prod.splits sum.splits option.splits if_splits)

lemma loop_body_raise_keeps:
  "loop_body svc rows ex st = Inl (e, st') \<Longrightarrow>
     exercise_trans_tips st' = exercise_trans_tips st \<and> processed_count st' = processed_count st"
  by (auto simp: loop_body_def Let_def say_def
           split: prod.splits sum.splits option.splits if_splits)

lemma no_tips_key:
  "\<not> exercise_already_has_tips tbl eid pop ctx \<Longrightarrow> (eid, pop, ctx) \<notin> set (map tip_key tbl)"
  by (auto simp: exercise_already_has_tips_def tip_key_def filter_empty_conv)

lemma loop_body_distinct:
  assumes "distinct (map tip_key (exercise_trans_tips st))"
  shows "distinct (map tip_key (exercise_trans_tips (final_state (loop_body svc rows ex st))))"
  using loop_body_effect [OF refl, of svc rows ex st] assms no_tips_key
  by (auto simp del: set_map)

lemma main_loop_distinct:
  "distinct (map tip_key (exercise_trans_tips st)) \<Longrightarrow>
     distinct (map tip_key (exercise_trans_tips (final_state (main_loop svc mx rows exs st))))"
proof (induction exs arbitrary: st)
  case Nil
  then show ?case by (simp add: final_state_def)
next
  case (Cons ex exs)
  show ?case
  proof (cases "loop_body svc rows ex st")
    case (Inl a)
    then show ?thesis
      using loop_body_distinct [OF Cons.prems, of svc rows ex] Cons.prems
      by (simp add: final_state_def split: prod.splits)
  next
    case (Inr st')
    then have "distinct (map tip_key (exercise_trans_tips st'))"
      using loop_body_distinct [OF Cons.prems, of svc rows ex] by (simp add: final_state_def)
    then show ?thesis using Inr Cons.IH Cons.prems by (simp add: final_state_def)
  qed
qed

lemma runs_distinct:
  "distinct (map tip_key tbl) \<Longrightarrow> distinct (map tip_key (runs rs tbl))"
proof (induction rs arbitrary: tbl)
  case Nil
  then show ?case by simp
next
  case (Cons run rs)
  obtain svc mx db exs where run: "run = (svc, mx, db, exs)" by (cases run) auto
  have "distinct (map tip_key (exercise_trans_tips (final_state (snd (main svc mx db exs tbl)))))"
    using main_loop_distinct [of "initial_state tbl"] Cons.prems
    by (simp add: main_def split_beta initial_state_def)
  then show ?case using Cons.IH run by simp
qed

lemma distinct_key_count:
  "distinct (map f xs) \<Longrightarrow> length (filter (\<lambda>x. f x = k) xs) \<le> 1"
proof (induction xs)
  case Nil
  then show ?case by simp
next
  case (Cons a xs)
  from Cons.prems have "f a \<notin> f ` set xs" by simp
  then have "\<forall>x \<in> set xs. f x \<noteq> f a" by (metis imageI)
  then have "filter (\<lambda>x. f x = f a) xs = []"
    by (simp add: filter_empty_conv)
  then show ?case using Cons by auto
qed

lemma main_loop_count:
  "processed_count (final_state (main_loop svc (Some m) rows exs st)) \<le> max m (processed_count st)"
proof (induction exs arbitrary: st)
  case Nil
  then show ?case by (simp add: final_state_def)
next
  case (Cons ex exs)
  show ?case
  proof (cases "limit_reached (Some m) st")
    case True
    then show ?thesis by (simp add: final_state_def)
  next
    case False
    then have lt: "processed_count st < m" by (simp add: limit_reached_def)
    show ?thesis
    proof (cases "loop_body svc rows ex st")
      case (Inl a)
      obtain e st' where a: "a = (e, st')" by (cases a) auto
      then show ?thesis
        using Inl False lt loop_body_raise_keeps [of svc rows ex st e st']
        by (simp add: final_state_def)
    next
      case (Inr st')
      have "processed_count st' \<le> Suc (processed_count st)"
        using loop_body_effect [OF refl, of svc rows ex st] Inr by (auto simp: final_state_def)
      then have "max m (processed_count st') \<le> max m (processed_count st)"
        using lt by simp
      then show ?thesis using Inr False Cons.IH [of st'] by simp
    qed
  qed
qed

lemma main_loop_inserted:
  "length (exercise_trans_tips (final_state (main_loop svc mx rows exs st))) + processed_count st
     = length (exercise_trans_tips st) + processed_count (final_state (main_loop svc mx rows exs st))"
proof (induction exs arbitrary: st)
  case Nil
  then show ?case by (simp add: final_state_def)
next
  case (Cons ex exs)
  show ?case
  proof (cases "limit_reached mx st")
    case True
    then show ?thesis by (simp add: final_state_def)
  next
    case False
    show ?thesis
    proof (cases "loop_body svc rows ex st")
      case (Inl a)
      obtain e st' where a: "a = (e, st')" by (cases a) auto
      then show ?thesis
        using Inl False loop_body_raise_keeps [of svc rows ex st e st']
        by (simp add: final_state_def)
    next
      case (Inr st')
      have "length (exercise_trans_tips st') + processed_count st
              = length (exercise_trans_tips st) + processed_count st'"
        using loop_body_effect [OF refl, of svc rows ex st] Inr by (auto simp: final_state_def)
      then show ?thesis using Inr False Cons.IH [of st'] by simp
    qed
  qed
qed

section \<open>Sample evaluations\<close>

lemma infer_squat: "infer_topics_for_exercise ex_squat = [''hrt_strength'', ''bone_health'']"
  by code_simp

lemma tagger_db_lean: "update_research_topics db_lean = ([row_lean_tagged, row_yoga], db_lean_tagged)"
  by code_simp

lemma distinct_db_lean: "distinct (map rid (transfit_research db_lean))"
  by code_simp

lemma build_squat:
  "build_research_context_for_topics [row_lean_tagged, row_mood] (infer_topics_for_exercise ex_squat) 6
     = (ctx_lean, [''10.1/x''])"
  by code_simp

section \<open>Claims on the tagger\<close>

text \<open>
  Claim C3, as stated, fails. The relevant article \<open>row_yoga\<close> has the stored topics
  \<open>hrt_strength\<close>, and no keyword occurs in its title and takeaways, so the
  computed topic set is empty and differs from the stored one. The tagger
  nevertheless issues no update: the table and the count of updates are unchanged.
\<close>

theorem tagger_empty_topics_counterexample:
  "relevant row_yoga \<and> tag_topics_for_research_row row_yoga = []
   \<and> topics row_yoga = Some [''hrt_strength'']
   \<and> update_research_topics \<lparr>transfit_research = [row_yoga], update_calls = 0\<rparr>
       = ([row_yoga], \<lparr>transfit_research = [row_yoga], update_calls = 0\<rparr>)"
  by code_simp

text \<open>
  Claim C3, amended. On a table with unique identifiers, the tagger rewrites
  exactly the relevant articles whose computed topic list is non-empty and differs
  from the stored value: such an article gets the computed list and
  \<open>processed = true\<close>, every other article is left as it is, and the number of
  updates issued is the number of those articles.
\<close>

theorem tagger_writes_nonempty_changed:
  assumes "distinct (map rid (transfit_research db))"
  shows "snd (update_research_topics db) =
    \<lparr>transfit_research =
       map (\<lambda>r. if relevant r \<and> tag_topics_for_research_row r \<noteq> []
                      \<and> topics r \<noteq> Some (tag_topics_for_research_row r)
                 then r\<lparr>topics := Some (tag_topics_for_research_row r), processed := True\<rparr>
                 else r) (transfit_research db),
     update_calls = update_calls db +
       length (filter (\<lambda>r. relevant r \<and> tag_topics_for_research_row r \<noteq> []
                            \<and> topics r \<noteq> Some (tag_topics_for_research_row r))
                 (transfit_research db))\<rparr>"
proof -
  have "tagged = (\<lambda>r. if relevant r \<and> tag_topics_for_research_row r \<noteq> []
                      \<and> topics r \<noteq> Some (tag_topics_for_research_row r)
                 then r\<lparr>topics := Some (tag_topics_for_research_row r), processed := True\<rparr>
                 else r)"
    by (rule ext) (simp add: tagged_def retag_def needs_update_def set_topics_def Let_def)
  then show ?thesis
    using update_research_topics_table [OF assms] update_research_topics_calls [of db]
    by (simp add: needs_update_def Let_def)
qed

theorem tagger_writes_nonempty_changed_witness:
  "distinct (map rid (transfit_research db_lean))
   \<and> snd (update_research_topics db_lean) = db_lean_tagged"
  using tagger_writes_nonempty_changed [OF distinct_db_lean] distinct_db_lean tagger_db_lean
  by simp

text \<open>
  Claim C6. On a table with unique identifiers, a second tagger run that starts
  from the store left by the first returns the same rows and leaves the same
  store, the count of updates included: it writes nothing.
\<close>

theorem tagger_idempotent:
  assumes "distinct (map rid (transfit_research db))"
    and "update_research_topics db = (rows1, db1)"
  shows "update_research_topics db1 = (rows1, db1)"
  using assms by (rule update_research_topics_again)

theorem tagger_idempotent_witness:
  "distinct (map rid (transfit_research db_lean))
   \<and> update_research_topics db_lean = ([row_lean_tagged, row_yoga], db_lean_tagged)
   \<and> update_research_topics db_lean_tagged = ([row_lean_tagged, row_yoga], db_lean_tagged)"
  using tagger_idempotent [OF distinct_db_lean tagger_db_lean] distinct_db_lean tagger_db_lean
  by simp

section \<open>Claims on the inferencer and the context builder\<close>

text \<open>
  Claim C8. The topics inferred for an exercise lie in the vocabulary of
  \<open>TOPIC_KEYWORDS\<close>, which has the five members \<open>hrt_strength\<close>,
  \<open>bone_health\<close>, \<open>top_surgery\<close>, \<open>cardio_risk\<close> and \<open>mental_health\<close>. The
  inferencer is a function of the exercise alone, so equal inputs give equal
  topic sets.
\<close>

theorem inferencer_closed_and_pure:
  "set (infer_topics_for_exercise ex) \<subseteq> set (map fst TOPIC_KEYWORDS)
   \<and> set (map fst TOPIC_KEYWORDS) =
        {''hrt_strength'', ''bone_health'', ''top_surgery'', ''cardio_risk'', ''mental_health''}
   \<and> (ex' = ex \<longrightarrow> set (infer_topics_for_exercise ex') = set (infer_topics_for_exercise ex))"
proof -
  have voc: "set (map fst TOPIC_KEYWORDS) =
        {''hrt_strength'', ''bone_health'', ''top_surgery'', ''cardio_risk'', ''mental_health''}"
    by (simp add: TOPIC_KEYWORDS_def)
  have four: "{''hrt_strength'', ''bone_health'', ''top_surgery'', ''cardio_risk''}
        \<subseteq> {''hrt_strength'', ''bone_health'', ''top_surgery'', ''cardio_risk'', ''mental_health''}"
    by simp
  have closed: "set (infer_topics_for_exercise ex) \<subseteq> set (map fst TOPIC_KEYWORDS)"
    unfolding voc by (rule subset_trans [OF infer_topics_subset four])
  have pure: "ex' = ex \<longrightarrow> set (infer_topics_for_exercise ex') = set (infer_topics_for_exercise ex)"
    by simp
  show ?thesis
    by (intro conjI) (rule closed, rule voc, rule pure)
qed

theorem inferencer_closed_and_pure_witness:
  "set (infer_topics_for_exercise ex_squat) \<subseteq> set (map fst TOPIC_KEYWORDS)
   \<and> infer_topics_for_exercise ex_squat = [''hrt_strength'', ''bone_health'']"
  using inferencer_closed_and_pure [of ex_squat ex_squat] infer_squat by blast

text \<open>
  Claim C10. The inferencer never yields \<open>mental_health\<close>: its result lies within
  the other four topics, and a research row whose topics are at most
  \<open>mental_health\<close> is never among the rows matched for an exercise, whatever the
  bound on the number of articles.
\<close>

theorem inferencer_never_mental_health:
  "''mental_health'' \<notin> set (infer_topics_for_exercise ex)
   \<and> set (infer_topics_for_exercise ex)
        \<subseteq> {''hrt_strength'', ''bone_health'', ''top_surgery'', ''cardio_risk''}
   \<and> (set (row_topics r) \<subseteq> {''mental_health''} \<longrightarrow>
        r \<notin> set (match_loop rows (infer_topics_for_exercise ex) max_articles []))"
proof -
  have sub: "set (infer_topics_for_exercise ex)
        \<subseteq> {''hrt_strength'', ''bone_health'', ''top_surgery'', ''cardio_risk''}"
    by (rule infer_topics_subset)
  then have no: "''mental_health'' \<notin> set (infer_topics_for_exercise ex)" by auto
  have "\<not> row_matches (infer_topics_for_exercise ex) r" if "set (row_topics r) \<subseteq> {''mental_health''}"
    using that no by (auto simp: row_matches_iff)
  then show ?thesis
    using sub no match_loop_subset [of rows "infer_topics_for_exercise ex" max_articles "[]"]
    by auto
qed

lemma row_topics_mood: "set (row_topics row_mood) \<subseteq> {''mental_health''}"
  by (simp add: row_mood_def row_topics_def)

theorem inferencer_never_mental_health_witness:
  "set (row_topics row_mood) \<subseteq> {''mental_health''}
   \<and> row_mood \<notin> set (match_loop [row_lean_tagged, row_mood] (infer_topics_for_exercise ex_squat) 6 [])"
  using inferencer_never_mental_health [of ex_squat row_mood "[row_lean_tagged, row_mood]" 6]
    row_topics_mood
  by simp

text \<open>
  Claim C7. With a bound of at least one article (the call of the orchestrator uses
  the default 6), the context builder returns the empty string and the empty list
  if and only if the exercise topics are empty or no row has a topic in common
  with them. Otherwise the context is non-empty, and the list holds, in order, the
  DOI of every selected row that has a non-empty one, where the selected rows are
  the first \<open>max_articles\<close> rows with a topic in common with the exercise topics.
\<close>

theorem context_emptiness:
  assumes "1 \<le> max_articles"
  shows "(build_research_context_for_topics rows exercise_topics max_articles = ([], []))
           = (exercise_topics = [] \<or>
              (\<forall>r \<in> set rows.
                 set exercise_topics \<inter> (case topics r of None \<Rightarrow> {} | Some t \<Rightarrow> set t) = {}))
       \<and> (build_research_context_for_topics rows exercise_topics max_articles \<noteq> ([], []) \<longrightarrow>
            fst (build_research_context_for_topics rows exercise_topics max_articles) \<noteq> []
            \<and> snd (build_research_context_for_topics rows exercise_topics max_articles)
                = map (\<lambda>r. the (doi r))
                    (filter (\<lambda>r. doi r \<noteq> None \<and> doi r \<noteq> Some [])
                       (take (nat max_articles)
                          (filter (\<lambda>r. set exercise_topics
                                         \<inter> (case topics r of None \<Rightarrow> {} | Some t \<Rightarrow> set t) \<noteq> {})
                             rows))))"
proof -
  let ?common = "\<lambda>r. set exercise_topics \<inter> (case topics r of None \<Rightarrow> {} | Some t \<Rightarrow> set t) \<noteq> {}"
  let ?sel = "take (nat max_articles) (filter ?common rows)"
  have p: "row_matches exercise_topics = ?common"
    by (rule ext) (rule row_matches_topics)
  have m: "match_loop rows exercise_topics max_articles [] = ?sel"
    using match_loop_first [OF assms, of rows exercise_topics] by (simp only: p)
  have "(?sel = []) = (\<forall>r \<in> set rows. \<not> ?common r)"
    using assms by (simp add: filter_empty_conv)
  then have iff: "(build_research_context_for_topics rows exercise_topics max_articles = ([], []))
           = (exercise_topics = [] \<or> (\<forall>r \<in> set rows. \<not> ?common r))"
    by (simp add: build_eq_empty m)
  have "fst (build_research_context_for_topics rows exercise_topics max_articles) \<noteq> []
        \<and> snd (build_research_context_for_topics rows exercise_topics max_articles) = collect_dois ?sel"
    if "build_research_context_for_topics rows exercise_topics max_articles \<noteq> ([], [])"
    using that m
    by (auto simp: build_research_context_for_topics_def Let_def join_render_nonempty split: if_splits)
  then show ?thesis using iff by (simp add: collect_dois_present)
qed

lemma build_squat_four:
  "build_research_context_for_topics [row_lean_tagged, row_mood, row_yoga, row_bone]
       (infer_topics_for_exercise ex_squat) 6
     = (ctx_lean @ [CHR 0x0A] @ ''- Yoga (n.d., n.d.): calm'' @ [CHR 0x0A] @ ''- Bone (n.d., J): load'',
        [''10.1/x'', ''10.2/y''])"
  by code_simp

lemma row_mood_no_common:
  "set (infer_topics_for_exercise ex_squat)
      \<inter> (case topics row_mood of None \<Rightarrow> {} | Some t \<Rightarrow> set t) = {}"
  by code_simp

theorem context_emptiness_witness:
  "(1::int) \<le> 6
   \<and> build_research_context_for_topics [row_lean_tagged, row_mood, row_yoga, row_bone]
         (infer_topics_for_exercise ex_squat) 6 \<noteq> ([], [])
   \<and> snd (build_research_context_for_topics [row_lean_tagged, row_mood, row_yoga, row_bone]
         (infer_topics_for_exercise ex_squat) 6) = [''10.1/x'', ''10.2/y'']
   \<and> build_research_context_for_topics [row_mood] (infer_topics_for_exercise ex_squat) 6 = ([], [])"
proof -
  have h: "(1::int) \<le> 6" by simp
  have ne: "ctx_lean \<noteq> []" by (simp add: ctx_lean_def)
  have a: "build_research_context_for_topics [row_mood] (infer_topics_for_exercise ex_squat) 6 = ([], [])"
    using context_emptiness [OF h, of "[row_mood]" "infer_topics_for_exercise ex_squat"]
      row_mood_no_common
    by simp
  show ?thesis
    using context_emptiness [OF h, of "[row_lean_tagged, row_mood, row_yoga, row_bone]"
        "infer_topics_for_exercise ex_squat"] build_squat_four ne a
    by simp
qed

text \<open>
  Claim C9. For non-empty exercise topics and a bound of at least one article (the
  orchestrator, the only caller, uses the default 6), the selected rows are the
  first \<open>max_articles\<close> rows, in input order, that have a topic in common with the
  exercise topics; they never number more than \<open>max_articles\<close>, and the context
  and the DOI list are rendered from them.
\<close>

theorem context_selects_first_matches:
  assumes "exercise_topics \<noteq> []" and "1 \<le> max_articles"
  shows "match_loop rows exercise_topics max_articles []
           = take (nat max_articles) (filter (row_matches exercise_topics) rows)
       \<and> int (length (match_loop rows exercise_topics max_articles [])) \<le> max_articles
       \<and> build_research_context_for_topics rows exercise_topics max_articles
           = (let selected = take (nat max_articles) (filter (row_matches exercise_topics) rows)
              in if selected = [] then ([], [])
                 else (join [CHR 0x0A] (map render_line selected), collect_dois selected))
       \<and> match_loop rows exercise_topics max_articles []
           = take (nat max_articles)
               (filter (\<lambda>r. set exercise_topics
                              \<inter> (case topics r of None \<Rightarrow> {} | Some t \<Rightarrow> set t) \<noteq> {})
                  rows)"
proof -
  have p: "row_matches exercise_topics =
      (\<lambda>r. set exercise_topics \<inter> (case topics r of None \<Rightarrow> {} | Some t \<Rightarrow> set t) \<noteq> {})"
    by (rule ext) (rule row_matches_topics)
  have m: "match_loop rows exercise_topics max_articles []
           = take (nat max_articles) (filter (row_matches exercise_topics) rows)"
    by (rule match_loop_first [OF assms(2)])
  have b: "build_research_context_for_topics rows exercise_topics max_articles
           = (let selected = take (nat max_articles) (filter (row_matches exercise_topics) rows)
              in if selected = [] then ([], [])
                 else (join [CHR 0x0A] (map render_line selected), collect_dois selected))"
    using assms by (simp add: m build_research_context_for_topics_def Let_def)
  have l: "int (length (match_loop rows exercise_topics max_articles [])) \<le> max_articles"
    using assms(2) by (simp add: m)
  have m': "match_loop rows exercise_topics max_articles []
           = take (nat max_articles)
               (filter (\<lambda>r. set exercise_topics
                              \<inter> (case topics r of None \<Rightarrow> {} | Some t \<Rightarrow> set t) \<noteq> {})
                  rows)"
    using m by (simp only: p)
  show ?thesis
    by (intro conjI) (rule m, rule l, rule b, rule m')
qed

lemma select_two_of_three:
  "take (nat 2) (filter (row_matches (infer_topics_for_exercise ex_squat))
      [row_mood, row_lean_tagged, row_bone, row_yoga]) = [row_lean_tagged, row_bone]"
  by code_simp

theorem context_selects_first_matches_witness:
  "infer_topics_for_exercise ex_squat \<noteq> [] \<and> (1::int) \<le> 2
   \<and> match_loop [row_mood, row_lean_tagged, row_bone, row_yoga] (infer_topics_for_exercise ex_squat) 2 []
       = [row_lean_tagged, row_bone]"
proof -
  have h1: "infer_topics_for_exercise ex_squat \<noteq> []" by (simp add: infer_squat)
  have h2: "(1::int) \<le> 2" by simp
  show ?thesis
    using context_selects_first_matches [OF h1 h2, of "[row_mood, row_lean_tagged, row_bone, row_yoga]"]
      h1 select_two_of_three
    by simp
qed

text \<open>
  Outside that range the bound is tested only after a matching row has been
  appended: with the bound 0 a matching first row is still selected.
\<close>

lemma match_loop_bound_zero:
  "match_loop [row_lean_tagged] [''hrt_strength''] 0 [] = [row_lean_tagged]
   \<and> build_research_context_for_topics [row_lean_tagged] [''hrt_strength''] 0
       = (ctx_lean, [''10.1/x''])"
  by code_simp

section \<open>Sample evaluations for the orchestrator\<close>

lemma squat_is_new:
  "\<not> exercise_already_has_tips (exercise_trans_tips (initial_state [])) (ex_id ex_squat) ''general'' ''general''"
  by code_simp

lemma squat_is_known:
  "exercise_already_has_tips (exercise_trans_tips (initial_state [tip_for 1])) (ex_id ex_squat) ''general'' ''general''"
  by code_simp

lemma build_squat_lean:
  "build_research_context_for_topics [row_lean_tagged] (infer_topics_for_exercise ex_squat) 6
     = (ctx_lean, [''10.1/x''])"
  by code_simp

lemma ctx_lean_nonempty: "ctx_lean \<noteq> []"
  by (simp add: ctx_lean_def)

lemma new_tip_squat: "new_tip ex_squat tips_without_disclaimer [''10.1/x''] = tip_for 1"
  by code_simp

lemma runs_squat_twice: "runs [run_squat, run_squat] [] = [tip_for 1]"
  by code_simp

section \<open>Claims on the orchestrator\<close>

text \<open>
  Claim C1, as stated, fails. The generator answers with an object that has every
  required key but \<open>disclaimer\<close>. The orchestrator inserts a tip record holding
  that object and counts the exercise as a success.
\<close>

theorem missing_disclaimer_counterexample:
  "\<not> has_required_keys tips_without_disclaimer
   \<and> chat_completion svc_no_disclaimer 0 ex_squat ctx_lean [''10.1/x''] = Inr tips_without_disclaimer
   \<and> loop_body svc_no_disclaimer [row_lean_tagged] ex_squat (initial_state []) =
       Inr \<lparr>exercise_trans_tips =
              [\<lparr>exercise_id = 1, population = ''general'', context = ''general'',
                tips = tips_without_disclaimer, source_dois = [''10.1/x''], needs_review = True\<rparr>],
            processed_count = 1, printed = [Inserted_tips ''Squat'' 1],
            generator_calls = 1, insert_calls = 1\<rparr>"
  by code_simp

text \<open>
  Claim C1, amended. When the generator returns a parsed value for an exercise
  that has no tips yet and a non-empty research context, the orchestrator treats
  the value as a failure exactly when it is falsy (the empty object): it then
  writes nothing, attempts no insert, leaves the counter and goes on, whatever
  the store would answer. Every truthy value, whatever keys it has, is inserted
  as the tips of a new record and counted, when the insert succeeds.
\<close>

theorem response_failure_iff_falsy:
  assumes "\<not> exercise_already_has_tips (exercise_trans_tips st) (ex_id ex) ''general'' ''general''"
    and "build_research_context_for_topics rows (infer_topics_for_exercise ex) 6 = (ctx, dois)"
    and "ctx \<noteq> []"
    and "chat_completion svc (generator_calls st) ex ctx dois = Inr tips_json"
  shows "(\<not> truthy tips_json \<longrightarrow>
            loop_body svc rows ex st =
              Inr (say (No_tips_generated (name ex)) (st\<lparr>generator_calls := Suc (generator_calls st)\<rparr>)))
       \<and> (truthy tips_json
            \<and> insert_error svc (exercise_trans_tips st) (new_tip ex tips_json dois) = None \<longrightarrow>
            loop_body svc rows ex st =
              Inr (say (Inserted_tips (name ex) (ex_id ex))
                    (st\<lparr>generator_calls := Suc (generator_calls st),
                        insert_calls := Suc (insert_calls st),
                        exercise_trans_tips := exercise_trans_tips st @ [new_tip ex tips_json dois],
                        processed_count := Suc (processed_count st)\<rparr>)))"
  using assms(4) loop_body_generated [OF assms(1,2,3), of svc]
  by (simp add: new_tip_def)

theorem response_failure_iff_falsy_witness:
  "\<not> exercise_already_has_tips (exercise_trans_tips (initial_state [])) (ex_id ex_squat) ''general'' ''general''
   \<and> build_research_context_for_topics [row_lean_tagged] (infer_topics_for_exercise ex_squat) 6
       = (ctx_lean, [''10.1/x''])
   \<and> ctx_lean \<noteq> []
   \<and> chat_completion svc_no_disclaimer (generator_calls (initial_state [])) ex_squat ctx_lean [''10.1/x'']
       = Inr tips_without_disclaimer
   \<and> truthy tips_without_disclaimer
   \<and> insert_error svc_no_disclaimer (exercise_trans_tips (initial_state []))
        (new_tip ex_squat tips_without_disclaimer [''10.1/x'']) = None
   \<and> exercise_trans_tips (final_state (loop_body svc_no_disclaimer [row_lean_tagged] ex_squat (initial_state [])))
       = [tip_for 1]
   \<and> chat_completion svc_empty_rejects (generator_calls (initial_state [])) ex_squat ctx_lean [''10.1/x'']
       = Inr (JObj [])
   \<and> \<not> truthy (JObj [])
   \<and> loop_body svc_empty_rejects [row_lean_tagged] ex_squat (initial_state []) =
       Inr (say (No_tips_generated (name ex_squat))
             ((initial_state [])\<lparr>generator_calls := Suc (generator_calls (initial_state []))\<rparr>))"
proof -
  have h4: "chat_completion svc_no_disclaimer (generator_calls (initial_state [])) ex_squat ctx_lean [''10.1/x'']
       = Inr tips_without_disclaimer"
    by (simp add: svc_no_disclaimer_def)
  have h5: "insert_error svc_no_disclaimer (exercise_trans_tips (initial_state []))
        (new_tip ex_squat tips_without_disclaimer [''10.1/x'']) = None"
    by (simp add: svc_no_disclaimer_def)
  have t: "truthy tips_without_disclaimer"
    by (simp add: tips_without_disclaimer_def)
  have e: "exercise_trans_tips (initial_state []) = []"
    by (simp add: initial_state_def)
  have k4: "chat_completion svc_empty_rejects (generator_calls (initial_state [])) ex_squat ctx_lean [''10.1/x'']
       = Inr (JObj [])"
    by (simp add: svc_empty_rejects_def)
  have f: "\<not> truthy (JObj [])" by simp
  note a = response_failure_iff_falsy [OF squat_is_new build_squat_lean ctx_lean_nonempty h4]
  note b = response_failure_iff_falsy [OF squat_is_new build_squat_lean ctx_lean_nonempty k4]
  have ins: "exercise_trans_tips (final_state (loop_body svc_no_disclaimer [row_lean_tagged] ex_squat (initial_state [])))
       = [tip_for 1]"
    using a t h5 e new_tip_squat by (simp add: final_state_def say_def)
  have skip: "loop_body svc_empty_rejects [row_lean_tagged] ex_squat (initial_state []) =
       Inr (say (No_tips_generated (name ex_squat))
             ((initial_state [])\<lparr>generator_calls := Suc (generator_calls (initial_state []))\<rparr>))"
    using b f by blast
  show ?thesis
    using squat_is_new build_squat_lean ctx_lean_nonempty h4 h5 t k4 f ins skip
    by blast
qed

text \<open>
  Claim C2. If the tip table holds at most one record per exercise, population
  and context, then after any sequence of runs it holds at most one record for
  every such tuple. An exercise whose existence check finds a record is skipped:
  the body only prints the line, so the table, the counter and the numbers of
  generator requests and of inserts are unchanged.
\<close>

theorem at_most_one_tip:
  "(distinct (map tip_key tbl) \<longrightarrow>
      length (filter (\<lambda>r. exercise_id r = eid \<and> population r = pop \<and> context r = ctx) (runs rs tbl)) \<le> 1)
   \<and> (exercise_already_has_tips (exercise_trans_tips st) (ex_id ex) ''general'' ''general'' \<longrightarrow>
        loop_body svc rows ex st = Inr (st\<lparr>printed := printed st @ [Skipping_existing (name ex)]\<rparr>))"
proof -
  have "length (filter (\<lambda>r. tip_key r = (eid, pop, ctx)) (runs rs tbl)) \<le> 1"
    if "distinct (map tip_key tbl)"
    using runs_distinct [OF that, of rs] by (rule distinct_key_count)
  then show ?thesis
    using loop_body_existing [of st ex svc rows] by (simp add: tip_key_def)
qed

theorem at_most_one_tip_witness:
  "distinct (map tip_key [])
   \<and> runs [run_squat, run_squat] [] = [tip_for 1]
   \<and> length (filter (\<lambda>r. exercise_id r = 1 \<and> population r = ''general'' \<and> context r = ''general'')
               (runs [run_squat, run_squat] [])) \<le> 1
   \<and> exercise_already_has_tips (exercise_trans_tips (initial_state [tip_for 1])) (ex_id ex_squat)
        ''general'' ''general''
   \<and> loop_body svc_timeout [row_lean_tagged] ex_squat (initial_state [tip_for 1])
       = Inr ((initial_state [tip_for 1])
               \<lparr>printed := printed (initial_state [tip_for 1]) @ [Skipping_existing (name ex_squat)]\<rparr>)"
  using at_most_one_tip [of "[]" 1 "''general''" "''general''" "[run_squat, run_squat]"
      "initial_state [tip_for 1]" ex_squat svc_timeout "[row_lean_tagged]"]
    squat_is_known runs_squat_twice
  by simp

text \<open>
  Claim C4, as stated, fails. With the limit 1 and two exercises that both have
  tips already, both exercises are taken through the body and skipped: two
  exercises, more than the limit.
\<close>

theorem limit_ignores_skipped_counterexample:
  "main_loop svc_no_disclaimer (Some 1) [row_lean_tagged] [ex_squat, ex_lunge]
       (initial_state [tip_for 1, tip_for 2]) =
     Inr \<lparr>exercise_trans_tips = [tip_for 1, tip_for 2], processed_count = 0,
          printed = [Skipping_existing ''Squat'', Skipping_existing ''Lunge''],
          generator_calls = 0, insert_calls = 0\<rparr>
   \<and> \<not> length (printed (final_state
            (main_loop svc_no_disclaimer (Some 1) [row_lean_tagged] [ex_squat, ex_lunge]
               (initial_state [tip_for 1, tip_for 2])))) \<le> 1"
  by code_simp

text \<open>
  Claim C4, amended. With a limit \<open>m\<close> set, a run inserts at most \<open>m\<close> tip
  records: the counter, which counts the inserts only, ends at most at \<open>m\<close>, and
  the table has grown by the value of the counter. Skipped exercises are not
  counted.
\<close>

theorem limit_bounds_inserts:
  "processed_count (final_state (snd (main svc (Some m) db exercises tbl))) \<le> m
   \<and> length (exercise_trans_tips (final_state (snd (main svc (Some m) db exercises tbl))))
       = length tbl + processed_count (final_state (snd (main svc (Some m) db exercises tbl)))"
  using main_loop_count [of svc m "fst (update_research_topics db)" exercises "initial_state tbl"]
    main_loop_inserted [of svc "Some m" "fst (update_research_topics db)" exercises "initial_state tbl"]
  by (simp add: main_def split_beta initial_state_def)

lemma main_limit_one:
  "exercise_trans_tips (final_state (snd (main svc_no_disclaimer (Some 1) db_lean [ex_squat, ex_lunge] [])))
     = [tip_for 1]"
  by code_simp

theorem limit_bounds_inserts_witness:
  "processed_count (final_state (snd (main svc_no_disclaimer (Some 1) db_lean [ex_squat, ex_lunge] []))) = 1
   \<and> exercise_trans_tips (final_state (snd (main svc_no_disclaimer (Some 1) db_lean [ex_squat, ex_lunge] [])))
       = [tip_for 1]"
  using limit_bounds_inserts [of svc_no_disclaimer 1 db_lean "[ex_squat, ex_lunge]" "[]"] main_limit_one
  by simp

text \<open>
  Claim C5. For an exercise that reaches the generator: if the request raises, the
  loop goes on with the next exercise, with the table and the counter unchanged
  and one more request on record; if the insert raises, the loop ends with that
  exception, the table unchanged and the remaining exercises not visited. In either
  case the body makes at most one request and at most one insert.
\<close>

theorem generator_error_skips_insert_error_aborts:
  assumes "\<not> limit_reached mx st"
    and "\<not> exercise_already_has_tips (exercise_trans_tips st) (ex_id ex) ''general'' ''general''"
    and "build_research_context_for_topics rows (infer_topics_for_exercise ex) 6 = (ctx, dois)"
    and "ctx \<noteq> []"
  shows "(chat_completion svc (generator_calls st) ex ctx dois = Inl e \<longrightarrow>
            main_loop svc mx rows (ex # exs) st =
              main_loop svc mx rows exs
                (st\<lparr>generator_calls := Suc (generator_calls st),
                    printed := printed st @ [Error_generating (name ex) e]\<rparr>))
       \<and> (chat_completion svc (generator_calls st) ex ctx dois = Inr tips_json \<and> truthy tips_json
            \<and> insert_error svc (exercise_trans_tips st) (new_tip ex tips_json dois) = Some e' \<longrightarrow>
            main_loop svc mx rows (ex # exs) st =
              Inl (e', st\<lparr>generator_calls := Suc (generator_calls st),
                           insert_calls := Suc (insert_calls st)\<rparr>))
       \<and> generator_calls (final_state (loop_body svc rows ex st)) \<le> Suc (generator_calls st)
       \<and> insert_calls (final_state (loop_body svc rows ex st)) \<le> Suc (insert_calls st)"
  using assms(1) loop_body_generated [OF assms(2,3,4), of svc]
    loop_body_calls [OF refl, of svc rows ex st]
  by (simp add: new_tip_def say_def)

lemma no_limit_initially: "\<not> limit_reached MAX_EXERCISES (initial_state [])"
  by code_simp

theorem generator_error_skips_insert_error_aborts_witness:
  "\<not> limit_reached MAX_EXERCISES (initial_state [])
   \<and> \<not> exercise_already_has_tips (exercise_trans_tips (initial_state [])) (ex_id ex_squat) ''general'' ''general''
   \<and> build_research_context_for_topics [row_lean_tagged] (infer_topics_for_exercise ex_squat) 6
       = (ctx_lean, [''10.1/x''])
   \<and> ctx_lean \<noteq> []
   \<and> chat_completion svc_timeout (generator_calls (initial_state [])) ex_squat ctx_lean [''10.1/x'']
       = Inl (Exception ''timeout'')
   \<and> main_loop svc_timeout MAX_EXERCISES [row_lean_tagged] [ex_squat, ex_lunge] (initial_state []) =
       main_loop svc_timeout MAX_EXERCISES [row_lean_tagged] [ex_lunge]
         ((initial_state [])\<lparr>generator_calls := Suc (generator_calls (initial_state [])),
             printed := printed (initial_state []) @ [Error_generating (name ex_squat) (Exception ''timeout'')]\<rparr>)
   \<and> chat_completion svc_insert_fails (generator_calls (initial_state [])) ex_squat ctx_lean [''10.1/x'']
       = Inr tips_without_disclaimer
   \<and> truthy tips_without_disclaimer
   \<and> insert_error svc_insert_fails (exercise_trans_tips (initial_state []))
        (new_tip ex_squat tips_without_disclaimer [''10.1/x'']) = Some (Exception ''schema'')
   \<and> main_loop svc_insert_fails MAX_EXERCISES [row_lean_tagged] [ex_squat, ex_lunge] (initial_state []) =
       Inl (Exception ''schema'',
            (initial_state [])\<lparr>generator_calls := Suc (generator_calls (initial_state [])),
                               insert_calls := Suc (insert_calls (initial_state []))\<rparr>)"
proof -
  have g1: "chat_completion svc_timeout (generator_calls (initial_state [])) ex_squat ctx_lean [''10.1/x'']
       = Inl (Exception ''timeout'')"
    by (simp add: svc_timeout_def)
  have g2: "chat_completion svc_insert_fails (generator_calls (initial_state [])) ex_squat ctx_lean [''10.1/x'']
       = Inr tips_without_disclaimer"
    by (simp add: svc_insert_fails_def)
  have t: "truthy tips_without_disclaimer"
    by (simp add: tips_without_disclaimer_def)
  have i: "insert_error svc_insert_fails (exercise_trans_tips (initial_state []))
        (new_tip ex_squat tips_without_disclaimer [''10.1/x'']) = Some (Exception ''schema'')"
    by (simp add: svc_insert_fails_def)
  note a = generator_error_skips_insert_error_aborts
             [OF no_limit_initially squat_is_new build_squat_lean ctx_lean_nonempty,
              where svc = svc_timeout and e = "Exception ''timeout''" and exs = "[ex_lunge]"]
  note b = generator_error_skips_insert_error_aborts
             [OF no_limit_initially squat_is_new build_squat_lean ctx_lean_nonempty,
              where svc = svc_insert_fails and tips_json = tips_without_disclaimer
                and e' = "Exception ''schema''" and exs = "[ex_lunge]"]
  show ?thesis
    using a b no_limit_initially squat_is_new build_squat_lean ctx_lean_nonempty g1 g2 t i
    by blast
qed

end
